theory Spec2Isabelle
  imports Main
begin

section \<open>The helper functions of useful.py, embedded in HOL\<close>

text \<open>
  The module is Python 2 code (\<^verbatim>\<open>d1.keys() + d2.keys()\<close> concatenates two lists,
  \<^verbatim>\<open>itemsIter.next()\<close>, \<^verbatim>\<open>reduce\<close>, and \<^verbatim>\<open>zip\<close> and \<^verbatim>\<open>map\<close> build
  lists). Each function below is the translation of the function of the same name; a
  name that HOL already uses gets the suffix \<open>_py\<close>.

  Conventions of the embedding:
  \<^item> a Python value that may be \<^verbatim>\<open>None\<close> is an \<open>'a option\<close>, \<^verbatim>\<open>None\<close> being \<open>None\<close>;
  \<^item> a raised exception is a value \<open>Inl exn\<close> of a sum type, a normal return is \<open>Inr v\<close>;
  \<^item> a callable with side effects takes the state and returns the state it leaves;
  \<^item> mutable lists and dictionaries live in a store, and are passed by address;
  \<^item> the keys of a dictionary are compared by HOL equality; the host equality \<^verbatim>\<open>==\<close> that
    \<open>all_same\<close> applies to the items of a list is a parameter, which need not be
    reflexive and may raise;
  \<^item> the limits of the interpreter are those of a 64-bit build of CPython 2.7; running
    out of memory is modelled where the size of the result is an argument (\<open>replicate\<close>).
\<close>

subsection \<open>Exceptions and the class hierarchy\<close>

text \<open>
  A class is its name and its direct base classes; \<^verbatim>\<open>issubclass\<close> follows the bases,
  so a class with several bases (multiple inheritance) is covered.
\<close>

datatype pyclass = Class string "pyclass list"

fun issubclass :: "pyclass \<Rightarrow> pyclass \<Rightarrow> bool" where
  "issubclass (Class n bs) d = (Class n bs = d \<or> (\<exists>b \<in> set bs. issubclass b d))"

text \<open>An exception instance: its class and its message.\<close>

datatype exn = Exn (class_of: pyclass) (message: string)

definition isinstance :: "exn \<Rightarrow> pyclass \<Rightarrow> bool" where
  "isinstance x c = issubclass (class_of x) c"

text \<open>The part of the built-in exception hierarchy of Python 2.7 that the module meets.\<close>

definition object_class :: pyclass where
  "object_class = Class ''object'' []"

definition BaseException :: pyclass where
  "BaseException = Class ''BaseException'' [object_class]"

definition SystemExit :: pyclass where
  "SystemExit = Class ''SystemExit'' [BaseException]"

definition KeyboardInterrupt :: pyclass where
  "KeyboardInterrupt = Class ''KeyboardInterrupt'' [BaseException]"

definition GeneratorExit :: pyclass where
  "GeneratorExit = Class ''GeneratorExit'' [BaseException]"

definition Exception :: pyclass where
  "Exception = Class ''Exception'' [BaseException]"

definition StopIteration :: pyclass where
  "StopIteration = Class ''StopIteration'' [Exception]"

definition StandardError :: pyclass where
  "StandardError = Class ''StandardError'' [Exception]"

definition ArithmeticError :: pyclass where
  "ArithmeticError = Class ''ArithmeticError'' [StandardError]"

definition ZeroDivisionError :: pyclass where
  "ZeroDivisionError = Class ''ZeroDivisionError'' [ArithmeticError]"

definition OverflowError :: pyclass where
  "OverflowError = Class ''OverflowError'' [ArithmeticError]"

definition MemoryError :: pyclass where
  "MemoryError = Class ''MemoryError'' [StandardError]"

definition TypeError :: pyclass where
  "TypeError = Class ''TypeError'' [StandardError]"

definition LookupError :: pyclass where
  "LookupError = Class ''LookupError'' [StandardError]"

definition IndexError :: pyclass where
  "IndexError = Class ''IndexError'' [LookupError]"

definition KeyError :: pyclass where
  "KeyError = Class ''KeyError'' [LookupError]"

text \<open>
  A deferred computation (a zero-argument callable): from the state before the call to
  its outcome and the state after it.
\<close>

type_synonym ('s, 'a) thunk = "'s \<Rightarrow> (exn + 'a) \<times> 's"

subsection \<open>maybe and maybe_get\<close>

text \<open>
  \<^verbatim>\<open>any([isinstance(exn, e) for e in exceptions])\<close>: the list comprehension tests every
  tag, \<^verbatim>\<open>any\<close> is the disjunction.
\<close>

definition any_py :: "bool list \<Rightarrow> bool" where
  "any_py bs = list_ex (\<lambda>b. b) bs"

text \<open>
  \<^verbatim>\<open>
  try:
      return f()
  except SystemExit:
      raise
  except Exception as exn:
      if any([isinstance(exn, e) for e in exceptions]):
          return default
      else:
          raise exn
  \<close>
  The handlers are tried in order; an exception that neither handler matches leaves
  the \<^verbatim>\<open>try\<close> statement as it is. The parameter \<^verbatim>\<open>default\<close> is \<open>dflt\<close> here
  (\<open>default\<close> is a constant of HOL).
\<close>

definition maybe :: "('s, 'a) thunk \<Rightarrow> 'a \<Rightarrow> pyclass list \<Rightarrow> ('s, 'a) thunk" where
  "maybe f dflt exceptions s =
     (case f s of
        (Inr v, s') \<Rightarrow> (Inr v, s')
      | (Inl exn, s') \<Rightarrow>
          if isinstance exn SystemExit then (Inl exn, s')
          else if isinstance exn Exception then
            (if any_py (map (\<lambda>e. isinstance exn e) exceptions) then (Inr dflt, s')
             else (Inl exn, s'))
          else (Inl exn, s'))"

text \<open>\<^verbatim>\<open>return maybe(f_dict, default, [LookupError])\<close>\<close>

definition maybe_get :: "('s, 'a) thunk \<Rightarrow> 'a \<Rightarrow> ('s, 'a) thunk" where
  "maybe_get f_dict dflt = maybe f_dict dflt [LookupError]"

subsection \<open>The store\<close>

text \<open>
  Lists and dictionaries are mutable objects that a caller passes by reference. The store
  holds the objects that exist; an address is an index into it, and a new object takes
  the next free address.
\<close>

type_synonym addr = nat

type_synonym 'o store = "'o list"

definition alloc :: "'o store \<Rightarrow> 'o \<Rightarrow> addr \<times> 'o store" where
  "alloc h v = (length h, h @ [v])"

subsection \<open>union_with\<close>

text \<open>
  A dictionary is a map; its keys are unique and have no order that a caller may rely on.
  \<^verbatim>\<open>d.keys()\<close> lists the keys in some order, which \<^verbatim>\<open>set(...)\<close> forgets again, so
  the keys are taken as a set at once. \<^verbatim>\<open>d.get(key, mempty)\<close> is \<open>dict_get\<close>, and the
  dictionary comprehension \<^verbatim>\<open>{key : e for key in ks}\<close> is \<open>dict_comp\<close>.
\<close>

definition keys :: "('k \<rightharpoonup> 'v) \<Rightarrow> 'k set" where
  "keys d = dom d"

definition dict_get :: "('k \<rightharpoonup> 'v) \<Rightarrow> 'k \<Rightarrow> 'v \<Rightarrow> 'v" where
  "dict_get d key dflt = (case d key of None \<Rightarrow> dflt | Some v \<Rightarrow> v)"

definition dict_comp :: "('k \<Rightarrow> 'v) \<Rightarrow> 'k set \<Rightarrow> ('k \<rightharpoonup> 'v)" where
  "dict_comp e ks = (\<lambda>key. if key \<in> ks then Some (e key) else None)"

text \<open>
  \<^verbatim>\<open>return {key : mappend(d1.get(key, mempty), d2.get(key, mempty))
            for key in set(d1.keys() + d2.keys())}\<close>
  The arguments \<open>d1\<close> and \<open>d2\<close> are the addresses of the two dictionaries; the result is
  the address of the dictionary that the comprehension builds, and the store with it.
\<close>

definition union_with ::
  "'v \<Rightarrow> ('v \<Rightarrow> 'v \<Rightarrow> 'v) \<Rightarrow> ('k \<rightharpoonup> 'v) store \<Rightarrow> addr \<Rightarrow> addr \<Rightarrow> addr \<times> ('k \<rightharpoonup> 'v) store" where
  "union_with mempty mappend h d1 d2 =
     alloc h (dict_comp (\<lambda>key. mappend (dict_get (h ! d1) key mempty) (dict_get (h ! d2) key mempty))
                (keys (h ! d1) \<union> keys (h ! d2)))"

subsection \<open>zipWith\<close>

text \<open>
  \<^verbatim>\<open>map(f, xs, ys)\<close> of Python 2 calls \<open>f\<close> on the items of both sequences in step, from
  left to right, and collects the results in a list; the shorter sequence is extended
  with \<^verbatim>\<open>None\<close>. The first call that raises ends the map.
\<close>

fun pad_zip :: "'a option list \<Rightarrow> 'b option list \<Rightarrow> ('a option \<times> 'b option) list" where
  "pad_zip [] [] = []"
| "pad_zip (x # xs) [] = (x, None) # pad_zip xs []"
| "pad_zip [] (y # ys) = (None, y) # pad_zip [] ys"
| "pad_zip (x # xs) (y # ys) = (x, y) # pad_zip xs ys"

fun map_calls :: "('a \<Rightarrow> 'b \<Rightarrow> ('s, 'c) thunk) \<Rightarrow> ('a \<times> 'b) list \<Rightarrow> ('s, 'c list) thunk" where
  "map_calls f [] s = (Inr [], s)"
| "map_calls f ((x, y) # ps) s =
     (case f x y s of
        (Inl e, s') \<Rightarrow> (Inl e, s')
      | (Inr r, s') \<Rightarrow>
          (case map_calls f ps s' of
             (Inl e, s'') \<Rightarrow> (Inl e, s'')
           | (Inr rs, s'') \<Rightarrow> (Inr (r # rs), s'')))"

definition map_py :: "('a option \<Rightarrow> 'b option \<Rightarrow> ('s, 'c) thunk) \<Rightarrow> 'a option list \<Rightarrow> 'b option list
    \<Rightarrow> ('s, 'c list) thunk" where
  "map_py f xs ys = map_calls f (pad_zip xs ys)"

text \<open>
  \<^verbatim>\<open>
  def zipWith(f, xs, ys):
      map(f, xs, ys)
  \<close>
  The body is an expression statement and the function ends without a \<^verbatim>\<open>return\<close>, so
  the caller gets \<^verbatim>\<open>None\<close>. The result type leaves room for the list that the map built.
\<close>

definition zipWith :: "('a option \<Rightarrow> 'b option \<Rightarrow> ('s, 'c) thunk) \<Rightarrow> 'a option list \<Rightarrow> 'b option list
    \<Rightarrow> ('s, 'c list option) thunk" where
  "zipWith f xs ys s =
     (case map_py f xs ys s of
        (Inl e, s') \<Rightarrow> (Inl e, s')
      | (Inr rs, s') \<Rightarrow> (Inr None, s'))"

text \<open>
  What \<^verbatim>\<open>map\<close> passes to \<open>f\<close> for position \<open>i\<close> of a sequence: the item there, and
  \<^verbatim>\<open>None\<close> past the end of the sequence.
\<close>

definition item_or_None :: "'a option list \<Rightarrow> nat \<Rightarrow> 'a option" where
  "item_or_None xs i = (if i < length xs then xs ! i else None)"

subsection \<open>replicate\<close>

text \<open>
  \<^verbatim>\<open>seq * n\<close> on a list, as the interpreter carries it out. The count is converted to a
  machine index (\<^verbatim>\<open>Py_ssize_t\<close>), which raises \<^verbatim>\<open>OverflowError\<close> for an integer outside
  the range of that type, a negative one as well as a positive one. Python's integers are
  unbounded, so \<open>n\<close> is an \<open>int\<close>.
\<close>

definition PY_SSIZE_T_MAX :: int where
  "PY_SSIZE_T_MAX = 2 ^ 63 - 1"

definition PY_SIZE_MAX :: int where
  "PY_SIZE_MAX = 2 ^ 64 - 1"

definition as_ssize_t :: "int \<Rightarrow> exn + int" where
  "as_ssize_t n =
     (if - PY_SSIZE_T_MAX - 1 \<le> n \<and> n \<le> PY_SSIZE_T_MAX then Inr n
      else Inl (Exn OverflowError ''cannot fit 'long' into an index-sized integer''))"

text \<open>
  A negative count is taken as zero. The new list has \<open>len(seq) * n\<close> items; an empty one
  is always had, and a larger one is refused with \<^verbatim>\<open>MemoryError\<close> when its size in bytes
  (eight for each item) does not fit the machine word, or when the allocator has no
  block of that size. What the allocator can give depends on the process and not on the
  arguments: \<open>room\<close> is the largest number of items for which it has a block when the
  call is made.
\<close>

definition list_repeat :: "nat \<Rightarrow> 'a list \<Rightarrow> int \<Rightarrow> exn + 'a list" where
  "list_repeat room a n =
     (case as_ssize_t n of
        Inl e \<Rightarrow> Inl e
      | Inr cnt \<Rightarrow>
          (let n' = (if cnt < 0 then 0 else cnt) in
           if 0 < n' \<and> PY_SSIZE_T_MAX div n' < int (length a) then Inl (Exn MemoryError [])
           else
             (let sz = int (length a) * n' in
              if sz = 0 then Inr []
              else if PY_SIZE_MAX div 8 < sz \<or> int room < sz then Inl (Exn MemoryError [])
              else Inr (concat (replicate (nat n') a)))))"

text \<open>\<^verbatim>\<open>return [x] * n\<close>\<close>

definition replicate_py :: "nat \<Rightarrow> int \<Rightarrow> 'a \<Rightarrow> exn + 'a list" where
  "replicate_py room n x = list_repeat room [x] n"

subsection \<open>all_same\<close>





subsection \<open>transpose\<close>

text \<open>
  \<^verbatim>\<open>zip(*m)\<close> of Python 2 takes one item from each row in turn and makes a tuple of
  them, until some row has no item left; with no row at all the result is empty. A tuple
  is modelled as the list of its items.
\<close>

function zip_star :: "'a list list \<Rightarrow> 'a list list" where
  "zip_star m =
     (if m = [] \<or> (\<exists>r \<in> set m. r = []) then [] else map hd m # zip_star (map tl m))"
  by pat_completeness auto
termination
proof (relation "measure (\<lambda>m. length (hd m))")
  show "wf (measure (\<lambda>m::'a list list. length (hd m)))"
    by simp
next
  fix m :: "'a list list"
  assume "\<not> (m = [] \<or> (\<exists>r \<in> set m. r = []))"
  then have "m \<noteq> []" and "hd m \<noteq> []"
    by (cases m; auto)+
  then show "(map tl m, m) \<in> measure (\<lambda>m. length (hd m))"
    by (simp add: hd_map)
qed

declare zip_star.simps [simp del]

text \<open>\<^verbatim>\<open>return zip(*m)\<close>\<close>

definition transpose_py :: "'a list list \<Rightarrow> 'a list list" where
  "transpose_py m = zip_star m"

subsection \<open>update_list\<close>

text \<open>
  \<^verbatim>\<open>list(xs)\<close> makes a new list object with the items of \<open>xs\<close>. The assignment
  \<^verbatim>\<open>a[index] = v\<close> changes the list at address \<open>a\<close> in place; a negative index counts
  from the end, and an index that is out of range after that raises \<^verbatim>\<open>IndexError\<close>.
\<close>

definition list_py :: "'a list store \<Rightarrow> addr \<Rightarrow> addr \<times> 'a list store" where
  "list_py h xs = alloc h (h ! xs)"

definition setitem :: "'a list store \<Rightarrow> addr \<Rightarrow> int \<Rightarrow> 'a \<Rightarrow> exn + 'a list store" where
  "setitem h a index v =
     (let n = int (length (h ! a));
          i = (if index < 0 then index + n else index)
      in if 0 \<le> i \<and> i < n then Inr (h[a := (h ! a)[nat i := v]])
         else Inl (Exn IndexError ''list assignment index out of range''))"

text \<open>
  \<^verbatim>\<open>
  new_xs = list(xs)
  new_xs[index] = new_x
  return new_xs
  \<close>
\<close>

definition update_list :: "'a list store \<Rightarrow> addr \<Rightarrow> int \<Rightarrow> 'a \<Rightarrow> (exn + addr) \<times> 'a list store" where
  "update_list h xs index new_x =
     (case list_py h xs of
        (new_xs, h1) \<Rightarrow>
          (case setitem h1 new_xs index new_x of
             Inl e \<Rightarrow> (Inl e, h1)
           | Inr h2 \<Rightarrow> (Inr new_xs, h2)))"

subsection \<open>Sample computations\<close>

text \<open>
  Deferred computations to run the functions on; their state counts the calls made.
  \<open>lookup d k\<close> is \<^verbatim>\<open>lambda: d[k]\<close>, which raises \<^verbatim>\<open>KeyError\<close> for a key that \<open>d\<close>
  does not have, and \<open>floor_div a b\<close> is \<^verbatim>\<open>lambda: a / b\<close> on integers.
\<close>

definition raising :: "exn \<Rightarrow> (nat, 'a) thunk" where
  "raising e calls = (Inl e, Suc calls)"

definition lookup :: "('k \<rightharpoonup> 'v) \<Rightarrow> 'k \<Rightarrow> (nat, 'v) thunk" where
  "lookup d k calls =
     (case d k of None \<Rightarrow> (Inl (Exn KeyError []), Suc calls) | Some v \<Rightarrow> (Inr v, Suc calls))"

definition floor_div :: "int \<Rightarrow> int \<Rightarrow> (nat, int option) thunk" where
  "floor_div a b calls =
     (if b = 0 then (Inl (Exn ZeroDivisionError ''integer division or modulo by zero''), Suc calls)
      else (Inr (Some (a div b)), Suc calls))"

text \<open>
  Callables with two parameters for \<open>zipWith\<close>. \<open>tally\<close> adds the sum of its arguments
  (\<^verbatim>\<open>None\<close> counting as zero) to a running total, and returns the sum. \<open>divc\<close> is
  \<^verbatim>\<open>lambda x, y: x / y\<close> on integers, with a state that counts the calls: it raises
  \<^verbatim>\<open>ZeroDivisionError\<close> for a zero divisor and \<^verbatim>\<open>TypeError\<close> when an argument is \<^verbatim>\<open>None\<close>.
\<close>

definition tally :: "int option \<Rightarrow> int option \<Rightarrow> (int, int) thunk" where
  "tally x y acc =
     (let v = (case x of None \<Rightarrow> 0 | Some a \<Rightarrow> a) + (case y of None \<Rightarrow> 0 | Some b \<Rightarrow> b)
      in (Inr v, acc + v))"

definition divc :: "int option \<Rightarrow> int option \<Rightarrow> (nat, int) thunk" where
  "divc x y calls =
     (case (x, y) of
        (Some a, Some b) \<Rightarrow>
          if b = 0 then (Inl (Exn ZeroDivisionError ''integer division or modulo by zero''), Suc calls)
          else (Inr (a div b), Suc calls)
      | _ \<Rightarrow> (Inl (Exn TypeError ''unsupported operand type(s) for /''), Suc calls))"



section \<open>Properties\<close>

subsection \<open>Auxiliary facts\<close>

lemmas builtin_classes =
  object_class_def BaseException_def SystemExit_def KeyboardInterrupt_def GeneratorExit_def
  Exception_def StopIteration_def StandardError_def ArithmeticError_def ZeroDivisionError_def
  LookupError_def IndexError_def KeyError_def OverflowError_def MemoryError_def TypeError_def

lemma any_py_isinstance:
  "any_py (map (\<lambda>e. isinstance x e) cs) = (\<exists>c \<in> set cs. isinstance x c)"
  by (simp add: any_py_def list_ex_iff)

lemma issubclass_trans: "issubclass a b \<Longrightarrow> issubclass b c \<Longrightarrow> issubclass a c"
proof (induction a b rule: issubclass.induct)
  case (1 n bs d)
  show ?case
  proof (cases "Class n bs = d")
    case True
    with "1.prems" show ?thesis by simp
  next
    case False
    with "1.prems" obtain b where b: "b \<in> set bs" "issubclass b d"
      by auto
    with "1.IH" "1.prems" have "issubclass b c"
      by blast
    with b show ?thesis by auto
  qed
qed

lemma LookupError_is_Exception: "issubclass LookupError Exception"
  by (simp add: LookupError_def StandardError_def Exception_def)

lemma isinstance_LookupError_Exception: "isinstance x LookupError \<Longrightarrow> isinstance x Exception"
  unfolding isinstance_def by (rule issubclass_trans [OF _ LookupError_is_Exception])

lemma maybe_Inr: "f s = (Inr v, s') \<Longrightarrow> maybe f dflt exceptions s = (Inr v, s')"
  by (simp add: maybe_def)

lemma maybe_Inl:
  "f s = (Inl x, s') \<Longrightarrow>
   maybe f dflt exceptions s =
     (if \<not> isinstance x SystemExit \<and> isinstance x Exception \<and> (\<exists>c \<in> set exceptions. isinstance x c)
      then (Inr dflt, s') else (Inl x, s'))"
  by (simp add: maybe_def any_py_isinstance)

lemma maybe_state: "snd (maybe f dflt exceptions s) = snd (f s)"
  by (simp add: maybe_def any_py_isinstance split: prod.splits sum.splits)

subsection \<open>union_with\<close>

text \<open>
  C1. For dictionaries \<open>d1\<close> and \<open>d2\<close> of the store, \<open>union_with\<close> returns a dictionary at
  an address that was free before the call, so neither \<open>d1\<close> nor \<open>d2\<close>; its keys are
  the keys of \<open>d1\<close> together with the keys of \<open>d2\<close>; at each key \<open>k\<close> its value is \<open>mappend v1 v2\<close>, where \<open>v1\<close> is
  the value of \<open>d1\<close> at \<open>k\<close> if \<open>d1\<close> has the key and \<open>mempty\<close> otherwise, and \<open>v2\<close>
  likewise for \<open>d2\<close>; and \<open>d1\<close>, \<open>d2\<close> and every other object of the store are as they
  were before the call.
\<close>

theorem union_with_spec:
  assumes "d1 < length h" and "d2 < length h"
  shows "\<exists>d h'. union_with mempty mappend h d1 d2 = (d, h') \<and>
     length h \<le> d \<and> d < length h' \<and> d \<noteq> d1 \<and> d \<noteq> d2 \<and>
     dom (h' ! d) = dom (h ! d1) \<union> dom (h ! d2) \<and>
     (\<forall>k \<in> dom (h' ! d). (h' ! d) k =
         Some (mappend (if k \<in> dom (h ! d1) then the ((h ! d1) k) else mempty)
                       (if k \<in> dom (h ! d2) then the ((h ! d2) k) else mempty))) \<and>
     h' ! d1 = h ! d1 \<and> h' ! d2 = h ! d2 \<and> (\<forall>a < length h. h' ! a = h ! a)"
proof -
  let ?r = "dict_comp (\<lambda>key. mappend (dict_get (h ! d1) key mempty) (dict_get (h ! d2) key mempty))
                (keys (h ! d1) \<union> keys (h ! d2))"
  have u: "union_with mempty mappend h d1 d2 = (length h, h @ [?r])"
    by (simp add: union_with_def alloc_def)
  have d: "dom ?r = dom (h ! d1) \<union> dom (h ! d2)"
    by (auto simp add: dict_comp_def keys_def split: if_splits)
  have v: "\<forall>k \<in> dom ?r. ?r k =
         Some (mappend (if k \<in> dom (h ! d1) then the ((h ! d1) k) else mempty)
                       (if k \<in> dom (h ! d2) then the ((h ! d2) k) else mempty))"
    by (auto simp add: dict_comp_def keys_def dict_get_def split: if_splits option.splits)
  from assms u d v show ?thesis
    by (simp add: nth_append)
qed

text \<open>
  The two runs of the docstring: \<^verbatim>\<open>union_with(0, lambda x, y: x + y, d1, d2)\<close> on
  \<^verbatim>\<open>{'a': 3, 'b': 2, 'd': 0}\<close> and \<^verbatim>\<open>{'a': 42, 'b': 12, 'c': 4}\<close>, and the same
  with lists and concatenation, where the order of the arguments of \<open>mappend\<close> shows.
\<close>

theorem union_with_spec_witness:
  "fst (union_with (0 :: int) (+)
      [[''a'' \<mapsto> 3, ''b'' \<mapsto> 2, ''d'' \<mapsto> 0], [''a'' \<mapsto> 42, ''b'' \<mapsto> 12, ''c'' \<mapsto> 4]] 0 1) = 2 \<and>
   map (snd (union_with (0 :: int) (+)
      [[''a'' \<mapsto> 3, ''b'' \<mapsto> 2, ''d'' \<mapsto> 0], [''a'' \<mapsto> 42, ''b'' \<mapsto> 12, ''c'' \<mapsto> 4]] 0 1) ! 2)
      [''a'', ''b'', ''c'', ''d'', ''e''] = [Some 45, Some 14, Some 4, Some 0, None] \<and>
   map (snd (union_with [] (@)
      [[''a'' \<mapsto> [42 :: int], ''c'' \<mapsto> [4]], [''a'' \<mapsto> [3], ''d'' \<mapsto> [0]]] 0 1) ! 2)
      [''a'', ''c'', ''d'', ''e''] = [Some [42, 3], Some [4], Some [0], None]"
  using union_with_spec [where h = "[[''a'' \<mapsto> 3, ''b'' \<mapsto> 2, ''d'' \<mapsto> 0], [''a'' \<mapsto> 42, ''b'' \<mapsto> 12, ''c'' \<mapsto> 4]]"
      and ?d1.0 = 0 and ?d2.0 = 1 and mempty = "0 :: int" and mappend = "(+)"]
    union_with_spec [where h = "[[''a'' \<mapsto> [42 :: int], ''c'' \<mapsto> [4]], [''a'' \<mapsto> [3], ''d'' \<mapsto> [0]]]"
      and ?d1.0 = 0 and ?d2.0 = 1 and mempty = "[]" and mappend = "(@)"]
  by (simp add: union_with_def alloc_def dict_comp_def dict_get_def keys_def)

subsection \<open>maybe\<close>

text \<open>
  C2, as amended. \<open>maybe\<close> runs \<open>f\<close> once: the state it leaves is the state that one
  call of \<open>f\<close> leaves. If \<open>f\<close> returns, \<open>maybe\<close> returns the same value. If \<open>f\<close> raises
  an instance of \<^verbatim>\<open>Exception\<close> that is not an instance of \<^verbatim>\<open>SystemExit\<close> and that is
  an instance of some class of \<open>exceptions\<close>, \<open>maybe\<close> returns the default. If \<open>f\<close>
  raises an exception that is an instance of no class of \<open>exceptions\<close>, \<open>maybe\<close> raises
  the same exception.
\<close>

theorem maybe_suppresses_listed_exceptions:
  "snd (maybe f dflt exceptions s) = snd (f s) \<and>
   (\<forall>v s'. f s = (Inr v, s') \<longrightarrow> maybe f dflt exceptions s = (Inr v, s')) \<and>
   (\<forall>x s'. f s = (Inl x, s') \<and> isinstance x Exception \<and> \<not> isinstance x SystemExit \<and>
      (\<exists>c \<in> set exceptions. isinstance x c) \<longrightarrow> maybe f dflt exceptions s = (Inr dflt, s')) \<and>
   (\<forall>x s'. f s = (Inl x, s') \<and> (\<forall>c \<in> set exceptions. \<not> isinstance x c) \<longrightarrow>
      maybe f dflt exceptions s = (Inl x, s'))"
  by (simp add: maybe_state maybe_Inr maybe_Inl)

text \<open>
  The runs of the docstring, \<^verbatim>\<open>maybe(lambda: 200/0, exceptions=[ZeroDivisionError])\<close>
  and \<^verbatim>\<open>maybe(lambda: 400/2, exceptions=[ZeroDivisionError])\<close>, and the division by zero
  with a list that does not name it and with the empty list.
\<close>

theorem maybe_suppresses_listed_exceptions_witness:
  "maybe (floor_div 200 0) None [ZeroDivisionError] 0 = (Inr None, 1) \<and>
   maybe (floor_div 400 2) None [ZeroDivisionError] 0 = (Inr (Some 200), 1) \<and>
   maybe (floor_div 200 0) None [LookupError] 0 =
     (Inl (Exn ZeroDivisionError ''integer division or modulo by zero''), 1) \<and>
   maybe (floor_div 200 0) None [] 0 =
     (Inl (Exn ZeroDivisionError ''integer division or modulo by zero''), 1)"
  using maybe_suppresses_listed_exceptions [of "floor_div 200 0" None "[ZeroDivisionError]" 0]
    maybe_suppresses_listed_exceptions [of "floor_div 400 2" None "[ZeroDivisionError]" 0]
    maybe_suppresses_listed_exceptions [of "floor_div 200 0" None "[LookupError]" 0]
    maybe_suppresses_listed_exceptions [of "floor_div 200 0" None "[]" 0]
  by (simp add: floor_div_def isinstance_def builtin_classes)

text \<open>
  C2 as it is written fails: a computation that raises \<^verbatim>\<open>KeyboardInterrupt\<close>, run with
  \<^verbatim>\<open>exceptions=[KeyboardInterrupt]\<close>, raises an exception whose class is in the list,
  and \<open>maybe\<close> raises it again instead of returning the default \<open>7\<close>.
\<close>

theorem maybe_listed_KeyboardInterrupt_propagates:
  "(raising (Exn KeyboardInterrupt []) 0 :: (exn + int) \<times> nat) = (Inl (Exn KeyboardInterrupt []), 1) \<and>
   isinstance (Exn KeyboardInterrupt []) KeyboardInterrupt \<and>
   maybe (raising (Exn KeyboardInterrupt [])) (7 :: int) [KeyboardInterrupt] 0 =
     (Inl (Exn KeyboardInterrupt []), 1) \<and>
   maybe (raising (Exn KeyboardInterrupt [])) (7 :: int) [KeyboardInterrupt] 0 \<noteq> (Inr 7, 1)"
  by (simp add: maybe_def raising_def isinstance_def builtin_classes)

text \<open>
  C3. If \<open>f\<close> raises an instance of \<^verbatim>\<open>SystemExit\<close>, \<open>maybe\<close> raises the same exception,
  whatever the list \<open>exceptions\<close> holds; the default is not returned.
\<close>

theorem maybe_reraises_SystemExit:
  "f s = (Inl x, s') \<Longrightarrow> isinstance x SystemExit \<Longrightarrow> maybe f dflt exceptions s = (Inl x, s')"
  by (simp add: maybe_Inl)

text \<open>
  \<^verbatim>\<open>SystemExit\<close> with \<^verbatim>\<open>SystemExit\<close> in the list, and a class that derives from both
  \<^verbatim>\<open>SystemExit\<close> and \<^verbatim>\<open>Exception\<close>, which only the first handler keeps from the second.
\<close>

theorem maybe_reraises_SystemExit_witness:
  "maybe (raising (Exn SystemExit [])) (7 :: int) [SystemExit, BaseException] 0 =
     (Inl (Exn SystemExit []), 1) \<and>
   maybe (raising (Exn (Class ''Quit'' [SystemExit, Exception]) [])) (7 :: int)
       [Class ''Quit'' [SystemExit, Exception], Exception] 0 =
     (Inl (Exn (Class ''Quit'' [SystemExit, Exception]) []), 1)"
  using maybe_reraises_SystemExit [of "raising (Exn SystemExit [])" 0 "Exn SystemExit []" 1
      "7 :: int" "[SystemExit, BaseException]"]
    maybe_reraises_SystemExit [of "raising (Exn (Class ''Quit'' [SystemExit, Exception]) [])" 0
      "Exn (Class ''Quit'' [SystemExit, Exception]) []" 1
      "7 :: int" "[Class ''Quit'' [SystemExit, Exception], Exception]"]
  by (simp add: raising_def isinstance_def builtin_classes)

text \<open>
  C10. If \<open>f\<close> raises an exception that is not an instance of \<^verbatim>\<open>Exception\<close>, \<open>maybe\<close>
  raises the same exception, whatever the list \<open>exceptions\<close> holds. So whenever \<open>f\<close>
  raises and \<open>maybe\<close> does anything but raise the same exception, the exception is an
  instance of \<^verbatim>\<open>Exception\<close>.
\<close>

theorem maybe_propagates_outside_Exception:
  "(f s = (Inl x, s') \<and> \<not> isinstance x Exception \<longrightarrow> maybe f dflt exceptions s = (Inl x, s')) \<and>
   (f s = (Inl x, s') \<and> maybe f dflt exceptions s \<noteq> (Inl x, s') \<longrightarrow> isinstance x Exception)"
  by (auto simp add: maybe_Inl split: if_splits)

theorem maybe_propagates_outside_Exception_witness:
  "maybe (raising (Exn KeyboardInterrupt [])) (7 :: int) [KeyboardInterrupt] 0 =
     (Inl (Exn KeyboardInterrupt []), 1) \<and>
   maybe (raising (Exn GeneratorExit [])) (7 :: int) [GeneratorExit, BaseException] 0 =
     (Inl (Exn GeneratorExit []), 1) \<and>
   maybe (raising (Exn KeyError [])) (7 :: int) [LookupError] 0 = (Inr 7, 1) \<and>
   isinstance (Exn KeyError []) Exception"
  using maybe_propagates_outside_Exception [of "raising (Exn KeyboardInterrupt [])" 0
      "Exn KeyboardInterrupt []" 1 "7 :: int" "[KeyboardInterrupt]"]
    maybe_propagates_outside_Exception [of "raising (Exn GeneratorExit [])" 0
      "Exn GeneratorExit []" 1 "7 :: int" "[GeneratorExit, BaseException]"]
    maybe_propagates_outside_Exception [of "raising (Exn KeyError [])" 0
      "Exn KeyError []" 1 "7 :: int" "[LookupError]"]
  by (simp add: raising_def maybe_def any_py_def isinstance_def builtin_classes)

subsection \<open>maybe_get\<close>

lemma builtin_lookup_failures:
  assumes "c = LookupError \<or> c = KeyError \<or> c = IndexError"
  shows "isinstance (Exn c msg) LookupError" and "\<not> isinstance (Exn c msg) SystemExit"
  using assms by (auto simp add: isinstance_def builtin_classes)

text \<open>
  C4. \<open>maybe_get f dflt\<close> has the outcome and the final state of
  \<open>maybe f dflt [LookupError]\<close>. So it returns what \<open>f\<close> returns; it returns the default
  when \<open>f\<close> raises \<^verbatim>\<open>KeyError\<close>, \<^verbatim>\<open>IndexError\<close> or \<^verbatim>\<open>LookupError\<close> itself, and more
  generally an instance of any subclass of \<^verbatim>\<open>LookupError\<close> (one that is not at the same
  time an instance of \<^verbatim>\<open>SystemExit\<close>, which \<open>maybe\<close> never suppresses); and it raises the
  same exception when \<open>f\<close> raises anything that is not an instance of \<^verbatim>\<open>LookupError\<close>.
\<close>

theorem maybe_get_is_maybe_LookupError:
  "maybe_get f dflt s = maybe f dflt [LookupError] s \<and>
   (\<forall>v s'. f s = (Inr v, s') \<longrightarrow> maybe_get f dflt s = (Inr v, s')) \<and>
   (\<forall>c msg s'. f s = (Inl (Exn c msg), s') \<and> (c = LookupError \<or> c = KeyError \<or> c = IndexError) \<longrightarrow>
      maybe_get f dflt s = (Inr dflt, s')) \<and>
   (\<forall>x s'. f s = (Inl x, s') \<and> isinstance x LookupError \<and> \<not> isinstance x SystemExit \<longrightarrow>
      maybe_get f dflt s = (Inr dflt, s')) \<and>
   (\<forall>x s'. f s = (Inl x, s') \<and> \<not> isinstance x LookupError \<longrightarrow> maybe_get f dflt s = (Inl x, s'))"
proof (intro conjI allI impI)
  show "maybe_get f dflt s = maybe f dflt [LookupError] s"
    by (simp add: maybe_get_def)
next
  fix v s' assume "f s = (Inr v, s')"
  then show "maybe_get f dflt s = (Inr v, s')"
    by (simp add: maybe_get_def maybe_Inr)
next
  fix c msg s'
  assume a: "f s = (Inl (Exn c msg), s') \<and> (c = LookupError \<or> c = KeyError \<or> c = IndexError)"
  then have "isinstance (Exn c msg) LookupError" and "\<not> isinstance (Exn c msg) SystemExit"
    by (simp_all add: builtin_lookup_failures)
  with a show "maybe_get f dflt s = (Inr dflt, s')"
    by (simp add: maybe_get_def maybe_Inl isinstance_LookupError_Exception)
next
  fix x s'
  assume "f s = (Inl x, s') \<and> isinstance x LookupError \<and> \<not> isinstance x SystemExit"
  then show "maybe_get f dflt s = (Inr dflt, s')"
    by (simp add: maybe_get_def maybe_Inl isinstance_LookupError_Exception)
next
  fix x s'
  assume "f s = (Inl x, s') \<and> \<not> isinstance x LookupError"
  then show "maybe_get f dflt s = (Inl x, s')"
    by (simp add: maybe_get_def maybe_Inl)
qed

text \<open>
  The runs of the docstring, \<^verbatim>\<open>maybe_get(lambda: {"hello" : 42}["bar"])\<close> and
  \<^verbatim>\<open>maybe_get(lambda: {"hello" : 42}["hello"])\<close>, and a division by zero.
\<close>

theorem maybe_get_is_maybe_LookupError_witness:
  "maybe_get (lookup [''hello'' \<mapsto> Some (42 :: int)] ''bar'') None 0 = (Inr None, 1) \<and>
   maybe_get (lookup [''hello'' \<mapsto> Some (42 :: int)] ''hello'') None 0 = (Inr (Some 42), 1) \<and>
   maybe_get (floor_div 200 0) None 0 =
     (Inl (Exn ZeroDivisionError ''integer division or modulo by zero''), 1)"
  using maybe_get_is_maybe_LookupError [of "lookup [''hello'' \<mapsto> Some (42 :: int)] ''bar''" None 0]
    maybe_get_is_maybe_LookupError [of "lookup [''hello'' \<mapsto> Some (42 :: int)] ''hello''" None 0]
    maybe_get_is_maybe_LookupError [of "floor_div 200 0" None 0]
  by (simp add: maybe_get_def maybe_def any_py_def lookup_def floor_div_def isinstance_def
      builtin_classes)

subsection \<open>zipWith\<close>

lemma length_pad_zip: "length (pad_zip xs ys) = max (length xs) (length ys)"
  by (induction xs ys rule: pad_zip.induct) simp_all

lemma nth_pad_zip:
  "i < max (length xs) (length ys) \<Longrightarrow> pad_zip xs ys ! i = (item_or_None xs i, item_or_None ys i)"
proof (induction xs ys arbitrary: i rule: pad_zip.induct)
  case 1
  then show ?case by simp
next
  case (2 x xs)
  then show ?case by (cases i) (simp_all add: item_or_None_def)
next
  case (3 y ys)
  then show ?case by (cases i) (simp_all add: item_or_None_def)
next
  case (4 x xs y ys)
  then show ?case by (cases i) (simp_all add: item_or_None_def)
qed

lemma map_calls_all_return:
  assumes "st 0 = s"
    and "\<forall>i < length ps. \<exists>r. f (fst (ps ! i)) (snd (ps ! i)) (st i) = (Inr r, st (Suc i))"
  shows "\<exists>rs. map_calls f ps s = (Inr rs, st (length ps))"
  using assms
proof (induction ps arbitrary: s st)
  case Nil
  then show ?case by simp
next
  case (Cons p ps)
  obtain x y where p: "p = (x, y)" by (cases p)
  from Cons.prems(2) have "\<exists>r. f (fst ((p # ps) ! 0)) (snd ((p # ps) ! 0)) (st 0) = (Inr r, st (Suc 0))"
    by blast
  with p Cons.prems(1) obtain r where r: "f x y s = (Inr r, st (Suc 0))"
    by auto
  have "\<forall>i < length ps. \<exists>r. f (fst (ps ! i)) (snd (ps ! i)) (st (Suc i)) = (Inr r, st (Suc (Suc i)))"
  proof (intro allI impI)
    fix i assume "i < length ps"
    then have "Suc i < length (p # ps)" by simp
    with Cons.prems(2) have
      "\<exists>r. f (fst ((p # ps) ! Suc i)) (snd ((p # ps) ! Suc i)) (st (Suc i)) = (Inr r, st (Suc (Suc i)))"
      by blast
    then show "\<exists>r. f (fst (ps ! i)) (snd (ps ! i)) (st (Suc i)) = (Inr r, st (Suc (Suc i)))"
      by simp
  qed
  with Cons.IH [of "\<lambda>i. st (Suc i)" "st (Suc 0)"]
  obtain rs where "map_calls f ps (st (Suc 0)) = (Inr rs, st (Suc (length ps)))"
    by auto
  with p r show ?case by simp
qed

lemma map_calls_first_raise:
  assumes "st 0 = s" and "k < length ps"
    and "\<forall>i < k. \<exists>r. f (fst (ps ! i)) (snd (ps ! i)) (st i) = (Inr r, st (Suc i))"
    and "f (fst (ps ! k)) (snd (ps ! k)) (st k) = (Inl e, s')"
  shows "map_calls f ps s = (Inl e, s')"
  using assms
proof (induction ps arbitrary: s st k)
  case Nil
  then show ?case by simp
next
  case (Cons p ps)
  obtain x y where p: "p = (x, y)" by (cases p)
  show ?case
  proof (cases k)
    case 0
    with Cons.prems p show ?thesis by simp
  next
    case (Suc j)
    with Cons.prems(3) have "\<exists>r. f (fst ((p # ps) ! 0)) (snd ((p # ps) ! 0)) (st 0) = (Inr r, st (Suc 0))"
      by blast
    with p Cons.prems(1) obtain r where r: "f x y s = (Inr r, st (Suc 0))"
      by auto
    have "\<forall>i < j. \<exists>r. f (fst (ps ! i)) (snd (ps ! i)) (st (Suc i)) = (Inr r, st (Suc (Suc i)))"
    proof (intro allI impI)
      fix i assume "i < j"
      with Suc have "Suc i < k" by simp
      with Cons.prems(3) have
        "\<exists>r. f (fst ((p # ps) ! Suc i)) (snd ((p # ps) ! Suc i)) (st (Suc i)) = (Inr r, st (Suc (Suc i)))"
        by blast
      then show "\<exists>r. f (fst (ps ! i)) (snd (ps ! i)) (st (Suc i)) = (Inr r, st (Suc (Suc i)))"
        by simp
    qed
    moreover from Cons.prems(2) Suc have "j < length ps" by simp
    moreover from Cons.prems(4) Suc have "f (fst (ps ! j)) (snd (ps ! j)) (st (Suc j)) = (Inl e, s')"
      by simp
    ultimately have "map_calls f ps (st (Suc 0)) = (Inl e, s')"
      using Cons.IH [of "\<lambda>i. st (Suc i)" "st (Suc 0)" j] by simp
    with p r show ?thesis by simp
  qed
qed

text \<open>
  C6. \<open>zipWith\<close> never returns a list: whatever \<open>f\<close>, \<open>xs\<close> and \<open>ys\<close> are, a normal
  return gives \<^verbatim>\<open>None\<close>. The calls of \<open>f\<close> are made for their effects, from left to
  right, one for each position of the longer sequence, with \<^verbatim>\<open>None\<close> for the items that
  the shorter one lacks. Let \<open>st i\<close> be the state before call \<open>i\<close>, starting from the
  state \<open>s\<close> of the call of \<open>zipWith\<close>. If all these calls return, \<open>zipWith\<close> returns
  \<^verbatim>\<open>None\<close> and leaves the state after the last call, whatever the calls returned. If
  call \<open>k\<close> is the first that raises, \<open>zipWith\<close> raises the same exception and leaves the
  state of that call: the calls after it are not made.
\<close>

theorem zipWith_returns_None:
  assumes "st 0 = s"
  shows "(\<forall>r. fst (zipWith f xs ys s) \<noteq> Inr (Some r)) \<and>
   ((\<forall>i < max (length xs) (length ys).
        \<exists>r. f (item_or_None xs i) (item_or_None ys i) (st i) = (Inr r, st (Suc i))) \<longrightarrow>
      zipWith f xs ys s = (Inr None, st (max (length xs) (length ys)))) \<and>
   (\<forall>k e s'. k < max (length xs) (length ys) \<and>
        (\<forall>i < k. \<exists>r. f (item_or_None xs i) (item_or_None ys i) (st i) = (Inr r, st (Suc i))) \<and>
        f (item_or_None xs k) (item_or_None ys k) (st k) = (Inl e, s') \<longrightarrow>
      zipWith f xs ys s = (Inl e, s'))"
proof (intro conjI impI allI)
  fix r show "fst (zipWith f xs ys s) \<noteq> Inr (Some r)"
    by (simp add: zipWith_def split: prod.splits sum.splits)
next
  assume "\<forall>i < max (length xs) (length ys).
        \<exists>r. f (item_or_None xs i) (item_or_None ys i) (st i) = (Inr r, st (Suc i))"
  then have "\<forall>i < length (pad_zip xs ys).
      \<exists>r. f (fst (pad_zip xs ys ! i)) (snd (pad_zip xs ys ! i)) (st i) = (Inr r, st (Suc i))"
    by (simp add: length_pad_zip nth_pad_zip)
  from map_calls_all_return [OF assms this]
  show "zipWith f xs ys s = (Inr None, st (max (length xs) (length ys)))"
    by (auto simp add: zipWith_def map_py_def length_pad_zip)
next
  fix k e s'
  assume a: "k < max (length xs) (length ys) \<and>
        (\<forall>i < k. \<exists>r. f (item_or_None xs i) (item_or_None ys i) (st i) = (Inr r, st (Suc i))) \<and>
        f (item_or_None xs k) (item_or_None ys k) (st k) = (Inl e, s')"
  then have k: "k < length (pad_zip xs ys)"
    by (simp add: length_pad_zip)
  from a have "\<forall>i < k.
      \<exists>r. f (fst (pad_zip xs ys ! i)) (snd (pad_zip xs ys ! i)) (st i) = (Inr r, st (Suc i))"
    by (simp add: nth_pad_zip)
  moreover from a have "f (fst (pad_zip xs ys ! k)) (snd (pad_zip xs ys ! k)) (st k) = (Inl e, s')"
    by (simp add: nth_pad_zip)
  ultimately have "map_calls f (pad_zip xs ys) s = (Inl e, s')"
    using map_calls_first_raise [where st = st and s = s and k = k and ps = "pad_zip xs ys"
        and f = f and e = e and s' = s'] assms k by blast
  then show "zipWith f xs ys s = (Inl e, s')"
    by (simp add: zipWith_def map_py_def)
qed

text \<open>
  Runs with each of the two sequences the shorter one, with calls that all return, and
  with a call that raises before the last one.
\<close>

theorem zipWith_returns_None_witness:
  "zipWith divc [Some 6, Some 8] [Some 3, Some 2] 0 = (Inr None, 2) \<and>
   zipWith tally [Some 1, Some 2, Some 3] [Some 10, Some 20] 0 = (Inr None, 36) \<and>
   zipWith tally [Some 1] [Some 10, Some 20] 0 = (Inr None, 31) \<and>
   zipWith divc [Some 6, Some 8, Some 9] [Some 3, Some 0, Some 1] 0 =
     (Inl (Exn ZeroDivisionError ''integer division or modulo by zero''), 2) \<and>
   zipWith divc [Some 6] [Some 3, Some 2, Some 1] 0 =
     (Inl (Exn TypeError ''unsupported operand type(s) for /''), 2)"
proof (intro conjI)
  have "\<forall>i < max (length [Some (6 :: int), Some 8]) (length [Some (3 :: int), Some 2]).
      \<exists>r. divc (item_or_None [Some 6, Some 8] i) (item_or_None [Some 3, Some 2] i) i = (Inr r, Suc i)"
    by (simp add: divc_def item_or_None_def less_Suc_eq)
  with zipWith_returns_None [where st = "\<lambda>i. i" and s = 0 and f = divc
      and xs = "[Some 6, Some 8]" and ys = "[Some 3, Some 2]"]
  show "zipWith divc [Some 6, Some 8] [Some 3, Some 2] 0 = (Inr None, 2)"
    by simp
next
  have "\<forall>i < max (length [Some (1 :: int), Some 2, Some 3]) (length [Some (10 :: int), Some 20]).
      \<exists>r. tally (item_or_None [Some 1, Some 2, Some 3] i) (item_or_None [Some 10, Some 20] i)
             ([0, 11, 33, 36] ! i) = (Inr r, [0, 11, 33, 36] ! Suc i)"
    by (simp add: tally_def item_or_None_def less_Suc_eq)
  with zipWith_returns_None [where st = "\<lambda>i. [0, 11, 33, 36] ! i" and s = 0 and f = tally
      and xs = "[Some 1, Some 2, Some 3]" and ys = "[Some 10, Some 20]"]
  show "zipWith tally [Some 1, Some 2, Some 3] [Some 10, Some 20] 0 = (Inr None, 36)"
    by simp
next
  have "\<forall>i < max (length [Some (1 :: int)]) (length [Some (10 :: int), Some 20]).
      \<exists>r. tally (item_or_None [Some 1] i) (item_or_None [Some 10, Some 20] i)
             ([0, 11, 31] ! i) = (Inr r, [0, 11, 31] ! Suc i)"
    by (simp add: tally_def item_or_None_def less_Suc_eq)
  with zipWith_returns_None [where st = "\<lambda>i. [0, 11, 31] ! i" and s = 0 and f = tally
      and xs = "[Some 1]" and ys = "[Some 10, Some 20]"]
  show "zipWith tally [Some 1] [Some 10, Some 20] 0 = (Inr None, 31)"
    by simp
next
  have "1 < max (length [Some (6 :: int), Some 8, Some 9]) (length [Some (3 :: int), Some 0, Some 1]) \<and>
      (\<forall>i < 1. \<exists>r. divc (item_or_None [Some 6, Some 8, Some 9] i)
           (item_or_None [Some 3, Some 0, Some 1] i) i = (Inr r, Suc i)) \<and>
      divc (item_or_None [Some 6, Some 8, Some 9] 1) (item_or_None [Some 3, Some 0, Some 1] 1) 1 =
        (Inl (Exn ZeroDivisionError ''integer division or modulo by zero''), 2)"
    by (simp add: divc_def item_or_None_def)
  with zipWith_returns_None [where st = "\<lambda>i. i" and s = 0 and f = divc
      and xs = "[Some 6, Some 8, Some 9]" and ys = "[Some 3, Some 0, Some 1]"]
  show "zipWith divc [Some 6, Some 8, Some 9] [Some 3, Some 0, Some 1] 0 =
     (Inl (Exn ZeroDivisionError ''integer division or modulo by zero''), 2)"
    by blast
next
  have "1 < max (length [Some (6 :: int)]) (length [Some (3 :: int), Some 2, Some 1]) \<and>
      (\<forall>i < 1. \<exists>r. divc (item_or_None [Some 6] i)
           (item_or_None [Some 3, Some 2, Some 1] i) i = (Inr r, Suc i)) \<and>
      divc (item_or_None [Some 6] 1) (item_or_None [Some 3, Some 2, Some 1] 1) 1 =
        (Inl (Exn TypeError ''unsupported operand type(s) for /''), 2)"
    by (simp add: divc_def item_or_None_def)
  with zipWith_returns_None [where st = "\<lambda>i. i" and s = 0 and f = divc
      and xs = "[Some 6]" and ys = "[Some 3, Some 2, Some 1]"]
  show "zipWith divc [Some 6] [Some 3, Some 2, Some 1] 0 =
     (Inl (Exn TypeError ''unsupported operand type(s) for /''), 2)"
    by blast
qed

subsection \<open>replicate\<close>

lemma concat_replicate_single: "concat (replicate k [x]) = replicate k x"
  by (induction k) simp_all

lemma index_div_pos: "0 < n \<Longrightarrow> n \<le> PY_SSIZE_T_MAX \<Longrightarrow> \<not> PY_SSIZE_T_MAX div n < 1"
  using pos_imp_zdiv_pos_iff [of n PY_SSIZE_T_MAX] by simp

lemma replicate_py_in_range:
  assumes "- PY_SSIZE_T_MAX - 1 \<le> n" and "n \<le> PY_SSIZE_T_MAX"
    and "max n 0 \<le> PY_SIZE_MAX div 8" and "max n 0 \<le> int room"
  shows "replicate_py room n x = Inr (replicate (nat n) x)"
  using assms index_div_pos [of n]
  by (auto simp add: replicate_py_def list_repeat_def as_ssize_t_def Let_def
      concat_replicate_single)

lemma replicate_py_not_positive:
  assumes "- PY_SSIZE_T_MAX - 1 \<le> n" and "n \<le> 0"
  shows "replicate_py room n x = Inr []"
proof -
  have "0 \<le> PY_SSIZE_T_MAX" by (simp add: PY_SSIZE_T_MAX_def)
  with assms show ?thesis
    by (auto simp add: replicate_py_def list_repeat_def as_ssize_t_def Let_def)
qed

lemma replicate_py_overflow:
  assumes "n < - PY_SSIZE_T_MAX - 1 \<or> PY_SSIZE_T_MAX < n"
  shows "replicate_py room n x =
    Inl (Exn OverflowError ''cannot fit 'long' into an index-sized integer'')"
  using assms
  by (auto simp add: replicate_py_def list_repeat_def as_ssize_t_def)

lemma replicate_py_no_memory:
  assumes "0 < n" and "n \<le> PY_SSIZE_T_MAX" and "PY_SIZE_MAX div 8 < n \<or> int room < n"
  shows "replicate_py room n x = Inl (Exn MemoryError [])"
proof -
  have "0 \<le> PY_SSIZE_T_MAX" by (simp add: PY_SSIZE_T_MAX_def)
  with assms index_div_pos [of n] show ?thesis
    by (auto simp add: replicate_py_def list_repeat_def as_ssize_t_def Let_def)
qed

text \<open>
  C7, as amended. For every integer \<open>n\<close> in the range of the machine index and every
  \<open>x\<close>, if a list of \<open>max n 0\<close> items can be allocated, \<open>replicate_py\<close> returns a list of
  length \<open>max n 0\<close>, each item of which is \<open>x\<close>; for \<open>n\<close> zero or negative in that range
  the list is empty and is always returned. For \<open>n\<close> outside the range of the index
  \<open>replicate_py\<close> raises \<^verbatim>\<open>OverflowError\<close>, and for a positive \<open>n\<close> in the range whose list
  cannot be allocated it raises \<^verbatim>\<open>MemoryError\<close>.
\<close>

theorem replicate_py_spec:
  "(- PY_SSIZE_T_MAX - 1 \<le> n \<and> n \<le> PY_SSIZE_T_MAX \<and>
      max n 0 \<le> PY_SIZE_MAX div 8 \<and> max n 0 \<le> int room \<longrightarrow>
      (\<exists>l. replicate_py room n x = Inr l \<and> length l = nat (max n 0) \<and> (\<forall>y \<in> set l. y = x))) \<and>
   (- PY_SSIZE_T_MAX - 1 \<le> n \<and> n \<le> 0 \<longrightarrow> replicate_py room n x = Inr []) \<and>
   (n < - PY_SSIZE_T_MAX - 1 \<or> PY_SSIZE_T_MAX < n \<longrightarrow>
      (\<exists>msg. replicate_py room n x = Inl (Exn OverflowError msg))) \<and>
   (0 < n \<and> n \<le> PY_SSIZE_T_MAX \<and> (PY_SIZE_MAX div 8 < n \<or> int room < n) \<longrightarrow>
      replicate_py room n x = Inl (Exn MemoryError []))"
proof (intro conjI impI)
  assume "- PY_SSIZE_T_MAX - 1 \<le> n \<and> n \<le> PY_SSIZE_T_MAX \<and>
      max n 0 \<le> PY_SIZE_MAX div 8 \<and> max n 0 \<le> int room"
  then have "replicate_py room n x = Inr (replicate (nat n) x)"
    by (intro replicate_py_in_range) simp_all
  then show "\<exists>l. replicate_py room n x = Inr l \<and> length l = nat (max n 0) \<and> (\<forall>y \<in> set l. y = x)"
    by auto
next
  assume "- PY_SSIZE_T_MAX - 1 \<le> n \<and> n \<le> 0"
  then show "replicate_py room n x = Inr []"
    by (simp add: replicate_py_not_positive)
next
  assume "n < - PY_SSIZE_T_MAX - 1 \<or> PY_SSIZE_T_MAX < n"
  then show "\<exists>msg. replicate_py room n x = Inl (Exn OverflowError msg)"
    by (simp add: replicate_py_overflow)
next
  assume "0 < n \<and> n \<le> PY_SSIZE_T_MAX \<and> (PY_SIZE_MAX div 8 < n \<or> int room < n)"
  then show "replicate_py room n x = Inl (Exn MemoryError [])"
    by (intro replicate_py_no_memory) simp_all
qed

text \<open>
  The runs of the docstring, in a process that has room for a thousand items, the two
  ends of the range of the index, and a list that is too long for the process.
\<close>

theorem replicate_py_spec_witness:
  "replicate_py 1000 (- 1) (CHR ''x'') = Inr [] \<and> replicate_py 1000 0 (42 :: int) = Inr [] \<and>
   replicate_py 1000 1 (CHR ''a'') = Inr [CHR ''a''] \<and>
   replicate_py 1000 5 (1 :: int) = Inr [1, 1, 1, 1, 1] \<and>
   replicate_py 1000 (- 9223372036854775808) (1 :: int) = Inr [] \<and>
   replicate_py 1000 9223372036854775808 (1 :: int) =
     Inl (Exn OverflowError ''cannot fit 'long' into an index-sized integer'') \<and>
   replicate_py 1000 1001 (1 :: int) = Inl (Exn MemoryError [])"
proof (intro conjI)
  from replicate_py_spec [of "- 1" 1000 "CHR ''x''"]
  show "replicate_py 1000 (- 1) (CHR ''x'') = Inr []"
    by (simp add: PY_SSIZE_T_MAX_def)
next
  from replicate_py_spec [of 0 1000 "42 :: int"]
  show "replicate_py 1000 0 (42 :: int) = Inr []"
    by (simp add: PY_SSIZE_T_MAX_def)
next
  from replicate_py_spec [of 1 1000 "CHR ''a''"]
  obtain l where l: "replicate_py 1000 1 (CHR ''a'') = Inr l" "length l = 1" "\<forall>y \<in> set l. y = CHR ''a''"
    by (auto simp add: PY_SSIZE_T_MAX_def PY_SIZE_MAX_def)
  from l(3) have "replicate (length l) (CHR ''a'') = l"
    by (rule replicate_length_same)
  with l(2) have "l = [CHR ''a'']" by simp
  with l(1) show "replicate_py 1000 1 (CHR ''a'') = Inr [CHR ''a'']" by simp
next
  from replicate_py_spec [of 5 1000 "1 :: int"]
  obtain l where l: "replicate_py 1000 5 (1 :: int) = Inr l" "length l = 5" "\<forall>y \<in> set l. y = 1"
    by (auto simp add: PY_SSIZE_T_MAX_def PY_SIZE_MAX_def)
  from l(3) have "replicate (length l) 1 = l"
    by (rule replicate_length_same)
  with l(2) have "l = [1, 1, 1, 1, 1]" by (simp add: eval_nat_numeral)
  with l(1) show "replicate_py 1000 5 (1 :: int) = Inr [1, 1, 1, 1, 1]" by simp
next
  from replicate_py_spec [of "- 9223372036854775808" 1000 "1 :: int"]
  show "replicate_py 1000 (- 9223372036854775808) (1 :: int) = Inr []"
    by (simp add: PY_SSIZE_T_MAX_def)
next
  from replicate_py_spec [of 9223372036854775808 1000 "1 :: int"]
  obtain msg where "replicate_py 1000 9223372036854775808 (1 :: int) = Inl (Exn OverflowError msg)"
    by (auto simp add: PY_SSIZE_T_MAX_def)
  then show "replicate_py 1000 9223372036854775808 (1 :: int) =
     Inl (Exn OverflowError ''cannot fit 'long' into an index-sized integer'')"
    by (simp add: replicate_py_def list_repeat_def as_ssize_t_def PY_SSIZE_T_MAX_def)
next
  from replicate_py_spec [of 1001 1000 "1 :: int"]
  show "replicate_py 1000 1001 (1 :: int) = Inl (Exn MemoryError [])"
    by (simp add: PY_SSIZE_T_MAX_def)
qed

text \<open>
  C7 as it is written fails: \<open>- 9223372036854775809\<close> is negative, and \<open>replicate_py\<close>
  raises \<^verbatim>\<open>OverflowError\<close> there instead of returning the empty list.
\<close>

theorem replicate_py_below_index_range_raises:
  "replicate_py 1000 (- 9223372036854775809) (1 :: int) =
     Inl (Exn OverflowError ''cannot fit 'long' into an index-sized integer'') \<and>
   replicate_py 1000 (- 9223372036854775809) (1 :: int) \<noteq> Inr []"
  by (simp add: replicate_py_def list_repeat_def as_ssize_t_def PY_SSIZE_T_MAX_def)

subsection \<open>all_same\<close>










subsection \<open>transpose\<close>

lemma zip_star_stop: "m = [] \<or> [] \<in> set m \<Longrightarrow> zip_star m = []"
  by (subst zip_star.simps) auto

lemma zip_star_step:
  "m \<noteq> [] \<Longrightarrow> [] \<notin> set m \<Longrightarrow> zip_star m = map hd m # zip_star (map tl m)"
  by (subst zip_star.simps) auto

lemma length_zip_star_le: "r \<in> set m \<Longrightarrow> length (zip_star m) \<le> length r"
proof (induction m arbitrary: r rule: zip_star.induct)
  case (1 m)
  show ?case
  proof (cases "m = [] \<or> [] \<in> set m")
    case True
    then show ?thesis by (simp add: zip_star_stop)
  next
    case False
    then have ne: "m \<noteq> []" "[] \<notin> set m" by auto
    with "1.prems" have "r \<noteq> []" by auto
    from "1.prems" have "tl r \<in> set (map tl m)" by simp
    with "1.IH" [of "tl r"] ne have "length (zip_star (map tl m)) \<le> length (tl r)" by blast
    moreover from \<open>r \<noteq> []\<close> obtain x t where "r = x # t" by (cases r) auto
    ultimately show ?thesis using ne by (simp add: zip_star_step)
  qed
qed

lemma length_zip_star_attained: "m \<noteq> [] \<Longrightarrow> \<exists>r \<in> set m. length r = length (zip_star m)"
proof (induction m rule: zip_star.induct)
  case (1 m)
  show ?case
  proof (cases "[] \<in> set m")
    case True
    then show ?thesis by (auto simp add: zip_star_stop intro: bexI [of _ "[]"])
  next
    case False
    with "1.prems" have ne: "m \<noteq> []" "[] \<notin> set m" by auto
    with "1.IH" obtain r where r: "r \<in> set m" "length (tl r) = length (zip_star (map tl m))"
      by auto
    with ne have "r \<noteq> []" by auto
    then obtain x t where "r = x # t" by (cases r) auto
    with r ne have "length r = length (zip_star m)" by (simp add: zip_star_step)
    with r show ?thesis by blast
  qed
qed

lemma length_zip_star: "length (zip_star m) = (if m = [] then 0 else Min (length ` set m))"
proof (cases "m = []")
  case True
  then show ?thesis by (simp add: zip_star_stop)
next
  case False
  have "Min (length ` set m) = length (zip_star m)"
  proof (rule Min_eqI)
    show "finite (length ` set m)" by simp
    show "\<And>y. y \<in> length ` set m \<Longrightarrow> length (zip_star m) \<le> y"
      by (auto simp add: length_zip_star_le)
    show "length (zip_star m) \<in> length ` set m"
      using length_zip_star_attained [OF False] by force
  qed
  with False show ?thesis by simp
qed

lemma nth_zip_star: "j < length (zip_star m) \<Longrightarrow> zip_star m ! j = map (\<lambda>r. r ! j) m"
proof (induction m arbitrary: j rule: zip_star.induct)
  case (1 m)
  show ?case
  proof (cases "m = [] \<or> [] \<in> set m")
    case True
    with "1.prems" show ?thesis by (simp add: zip_star_stop)
  next
    case False
    then have ne: "m \<noteq> []" "[] \<notin> set m" by auto
    have hd0: "map hd m = map (\<lambda>r. r ! 0) m"
    proof (rule map_cong [OF refl])
      fix r assume "r \<in> set m"
      with ne have "r \<noteq> []" by auto
      then show "hd r = r ! 0" by (simp add: hd_conv_nth)
    qed
    show ?thesis
    proof (cases j)
      case 0
      with ne hd0 show ?thesis by (simp add: zip_star_step)
    next
      case (Suc k)
      with "1.prems" ne have "k < length (zip_star (map tl m))"
        by (simp add: zip_star_step)
      with "1.IH" ne have "zip_star (map tl m) ! k = map (\<lambda>r. r ! k) (map tl m)"
        by auto
      also have "\<dots> = map (\<lambda>r. r ! Suc k) m"
      proof -
        have "\<And>r. r \<in> set m \<Longrightarrow> tl r ! k = r ! Suc k"
          using ne by (case_tac r) auto
        then show ?thesis by simp
      qed
      finally show ?thesis using Suc ne by (simp add: zip_star_step)
    qed
  qed
qed

text \<open>
  C8. The result of \<open>transpose_py m\<close> has as many entries as the shortest row of \<open>m\<close> has
  items (none when \<open>m\<close> has no row); entry \<open>j\<close> has one item for each row of \<open>m\<close>, and its
  item \<open>i\<close> is item \<open>j\<close> of row \<open>i\<close>. On \<^verbatim>\<open>[[1,2,3],[4,5,6]]\<close> the result is the three
  entries \<^verbatim>\<open>(1,4)\<close>, \<^verbatim>\<open>(2,5)\<close>, \<^verbatim>\<open>(3,6)\<close>.
\<close>

theorem transpose_py_spec:
  "length (transpose_py m) = (if m = [] then 0 else Min (length ` set m)) \<and>
   (\<forall>j < length (transpose_py m). length (transpose_py m ! j) = length m \<and>
      (\<forall>i < length m. transpose_py m ! j ! i = m ! i ! j)) \<and>
   transpose_py [[1, 2, 3], [4, 5, 6 :: int]] = [[1, 4], [2, 5], [3, 6]]"
proof (intro conjI)
  show "length (transpose_py m) = (if m = [] then 0 else Min (length ` set m))"
    by (simp add: transpose_py_def length_zip_star)
  show "\<forall>j < length (transpose_py m). length (transpose_py m ! j) = length m \<and>
      (\<forall>i < length m. transpose_py m ! j ! i = m ! i ! j)"
    by (simp add: transpose_py_def nth_zip_star)
  show "transpose_py [[1, 2, 3], [4, 5, 6 :: int]] = [[1, 4], [2, 5], [3, 6]]"
    by (simp add: transpose_py_def zip_star.simps)
qed

text \<open>Rows of unequal lengths: the third item of the longer row is dropped.\<close>

theorem transpose_py_spec_witness:
  "transpose_py [[1, 2, 3], [4, 5 :: int]] = [[1, 4], [2, 5]] \<and>
   transpose_py [[1, 2, 3], [], [4, 5 :: int]] = [] \<and>
   transpose_py ([] :: int list list) = []"
  using transpose_py_spec [of "[[1, 2, 3], [4, 5 :: int]]"]
    transpose_py_spec [of "[[1, 2, 3], [], [4, 5 :: int]]"]
    transpose_py_spec [of "[] :: int list list"]
  by (simp add: transpose_py_def zip_star.simps)

subsection \<open>update_list\<close>

lemma update_list_in_range:
  assumes "xs < length h"
    and "i = (if index < 0 then index + int (length (h ! xs)) else index)"
    and "0 \<le> i" and "i < int (length (h ! xs))"
  shows "update_list h xs index new_x = (Inr (length h), h @ [(h ! xs)[nat i := new_x]])"
  using assms by (auto simp add: update_list_def list_py_def alloc_def setitem_def Let_def nth_append)

lemma update_list_out_of_range:
  assumes "xs < length h"
    and "i = (if index < 0 then index + int (length (h ! xs)) else index)"
    and "\<not> (0 \<le> i \<and> i < int (length (h ! xs)))"
  shows "update_list h xs index new_x =
    (Inl (Exn IndexError ''list assignment index out of range''), h @ [h ! xs])"
  using assms by (auto simp add: update_list_def list_py_def alloc_def setitem_def Let_def nth_append)

text \<open>
  C5. Let \<open>xs\<close> be a list of the store and \<open>i\<close> the index that \<open>index\<close> resolves to
  (\<open>index\<close> itself, or \<open>index\<close> plus the length of \<open>xs\<close> when \<open>index\<close> is negative). If \<open>i\<close>
  is the position of an item of \<open>xs\<close>, \<open>update_list\<close> returns a list at a new address,
  of the length of \<open>xs\<close>, with \<open>new_x\<close> at position \<open>i\<close> and the item of \<open>xs\<close> at every
  other position. If not (so for every index when \<open>xs\<close> is empty, and for the index
  equal to the length of \<open>xs\<close>), \<open>update_list\<close> raises \<^verbatim>\<open>IndexError\<close>. In both cases
  \<open>xs\<close> and every other list of the store are as they were before the call.
\<close>

theorem update_list_spec:
  assumes "xs < length h"
    and "i = (if index < 0 then index + int (length (h ! xs)) else index)"
  shows "(0 \<le> i \<and> i < int (length (h ! xs)) \<longrightarrow>
           (\<exists>new_xs h'. update_list h xs index new_x = (Inr new_xs, h') \<and>
              new_xs \<noteq> xs \<and> length h \<le> new_xs \<and> new_xs < length h' \<and>
              length (h' ! new_xs) = length (h ! xs) \<and>
              (\<forall>k < length (h ! xs). h' ! new_xs ! k = (if k = nat i then new_x else h ! xs ! k)) \<and>
              h' ! xs = h ! xs \<and> (\<forall>a < length h. h' ! a = h ! a))) \<and>
         (\<not> (0 \<le> i \<and> i < int (length (h ! xs))) \<longrightarrow>
           (\<exists>msg h'. update_list h xs index new_x = (Inl (Exn IndexError msg), h') \<and>
              h' ! xs = h ! xs \<and> (\<forall>a < length h. h' ! a = h ! a))) \<and>
         (h ! xs = [] \<or> index = int (length (h ! xs)) \<longrightarrow> \<not> (0 \<le> i \<and> i < int (length (h ! xs))))"
proof (intro conjI impI)
  assume "0 \<le> i \<and> i < int (length (h ! xs))"
  with assms have "update_list h xs index new_x = (Inr (length h), h @ [(h ! xs)[nat i := new_x]])"
    by (intro update_list_in_range) auto
  with assms(1) show "\<exists>new_xs h'. update_list h xs index new_x = (Inr new_xs, h') \<and>
              new_xs \<noteq> xs \<and> length h \<le> new_xs \<and> new_xs < length h' \<and>
              length (h' ! new_xs) = length (h ! xs) \<and>
              (\<forall>k < length (h ! xs). h' ! new_xs ! k = (if k = nat i then new_x else h ! xs ! k)) \<and>
              h' ! xs = h ! xs \<and> (\<forall>a < length h. h' ! a = h ! a)"
    by (auto simp add: nth_append nth_list_update)
next
  assume "\<not> (0 \<le> i \<and> i < int (length (h ! xs)))"
  with assms have "update_list h xs index new_x =
    (Inl (Exn IndexError ''list assignment index out of range''), h @ [h ! xs])"
    by (intro update_list_out_of_range) auto
  with assms(1) show "\<exists>msg h'. update_list h xs index new_x = (Inl (Exn IndexError msg), h') \<and>
              h' ! xs = h ! xs \<and> (\<forall>a < length h. h' ! a = h ! a)"
    by (auto simp add: nth_append)
next
  assume "h ! xs = [] \<or> index = int (length (h ! xs))"
  with assms(2) show "\<not> (0 \<le> i \<and> i < int (length (h ! xs)))"
    by (auto split: if_splits)
qed

text \<open>The first three runs of the docstring, the list at address \<open>0\<close> of the store.\<close>

theorem update_list_spec_witness:
  "update_list [[1, 2, 3 :: int]] 0 (- 1) 42 = (Inr 1, [[1, 2, 3], [1, 2, 42]]) \<and>
   update_list [[] :: int list] 0 2 42 =
     (Inl (Exn IndexError ''list assignment index out of range''), [[], []]) \<and>
   update_list [[1, 2, 3 :: int]] 0 3 42 =
     (Inl (Exn IndexError ''list assignment index out of range''), [[1, 2, 3], [1, 2, 3]])"
  using update_list_spec [of 0 "[[1, 2, 3 :: int]]" 2 "- 1" 42]
    update_list_spec [of 0 "[[] :: int list]" 2 2 42]
    update_list_spec [of 0 "[[1, 2, 3 :: int]]" 3 3 42]
  by (simp add: update_list_def list_py_def alloc_def setitem_def)

end
